theory Spec2Isabelle
  imports Complex_Main
begin

section \<open>Soft joint limits: the enforcement handles and their registry\<close>

text \<open>
  A shallow embedding of \<^verbatim>\<open>safety_limits_interface/soft_joint_limits_interface.h\<close>.

  Conventions of the embedding.
  \<^item> A C++ \<^verbatim>\<open>double\<close> is a \<^typ>\<open>real\<close>: the laws are read as exact arithmetic over an
    ordered field. Rounding, infinities and NaN are outside the model. The concrete inputs
    used below are dyadic fractions of small magnitude, on which the double computation
    is exact as well.
  \<^item> A \<^verbatim>\<open>ros::Duration\<close> is the \<^typ>\<open>real\<close> that its \<^verbatim>\<open>toSec()\<close> returns.
  \<^item> A member \<^verbatim>\<open>jh_\<close>, \<^verbatim>\<open>limits_\<close>, \<^verbatim>\<open>soft_limits_\<close> is the record field of the same
    name without the trailing underscore.
  \<^item> A \<^verbatim>\<open>throw\<close> and a failed \<^verbatim>\<open>assert\<close> are the left summand of the result.
  \<^item> A method that writes through the joint handle returns the updated object.
\<close>

subsection \<open>Saturation\<close>

text \<open>\<^verbatim>\<open>std::max(a, b)\<close> is \<^verbatim>\<open>(a < b) ? b : a\<close> and \<^verbatim>\<open>std::min(a, b)\<close> is
  \<^verbatim>\<open>(b < a) ? b : a\<close>.\<close>

definition std_max :: "real \<Rightarrow> real \<Rightarrow> real" where
  "std_max a b = (if a < b then b else a)"

definition std_min :: "real \<Rightarrow> real \<Rightarrow> real" where
  "std_min a b = (if b < a then b else a)"

text \<open>\<^verbatim>\<open>internal::saturate\<close>, lines 52 to 56.\<close>

definition saturate :: "real \<Rightarrow> real \<Rightarrow> real \<Rightarrow> real" where
  "saturate val min_val max_val = std_min (std_max val min_val) max_val"

subsection \<open>Collaborators declared outside this header\<close>

text \<open>Modelled from the spec: \<^verbatim>\<open>hardware_interface::JointHandle\<close>
  (\<^verbatim>\<open>hardware_interface/joint_command_interface.h\<close> is not part of the sources at hand).
  The spec's Joint Handle Adapter exposes \<^verbatim>\<open>getName()\<close>, \<^verbatim>\<open>getPosition()\<close>,
  \<^verbatim>\<open>getVelocity()\<close>, \<^verbatim>\<open>getCommand()\<close> and \<^verbatim>\<open>setCommand(v)\<close>; each getter is a field
  holding the value it returns, and the setter replaces the pending command only.\<close>

record JointHandle =
  getName :: string
  getPosition :: real
  getVelocity :: real
  getEffort :: real
  getCommand :: real

definition setCommand :: "JointHandle \<Rightarrow> real \<Rightarrow> JointHandle" where
  "setCommand h command = h\<lparr>getCommand := command\<rparr>"

text \<open>Modelled from the spec: \<^verbatim>\<open>JointLimits\<close> and \<^verbatim>\<open>SoftJointLimits\<close>
  (\<^verbatim>\<open>safety_limits_interface/joint_limits.h\<close> is not part of the sources at hand): the
  spec's LimitSpec and SoftLimitSpec, with the member names the header reads.\<close>

record JointLimits =
  min_position :: real
  max_position :: real
  max_velocity :: real
  max_effort :: real
  has_position_limits :: bool
  has_velocity_limits :: bool
  has_effort_limits :: bool

record SoftJointLimits =
  min_position :: real
  max_position :: real
  k_position :: real
  k_velocity :: real

text \<open>What can end a call abnormally: the exception of this package
  (\<^verbatim>\<open>SafetyLimitsInterfaceException\<close>, constructed from its message), the standard
  \<^verbatim>\<open>std::logic_error\<close> that \<^verbatim>\<open>getHandle\<close> catches, and a failed \<^verbatim>\<open>assert\<close>.\<close>

datatype failure =
  SafetyLimitsInterfaceException string
  | std_logic_error string
  | assertion_failure

subsection \<open>The handles\<close>

text \<open>\<^verbatim>\<open>JointSoftLimitsHandle\<close>, lines 61 to 78, and its three subclasses. The velocity
  handle adds no member to the base class.\<close>

record JointSoftLimitsHandle =
  jh :: JointHandle
  limits :: JointLimits

record PositionJointSoftLimitsHandle = JointSoftLimitsHandle +
  soft_limits :: SoftJointLimits

record EffortJointSoftLimitsHandle = JointSoftLimitsHandle +
  soft_limits :: SoftJointLimits

type_synonym VelocityJointSaturationHandle = JointSoftLimitsHandle

definition no_velocity_limits_msg :: "string \<Rightarrow> string" where
  "no_velocity_limits_msg joint = ''Cannot enforce limits for joint '' @ [CHR 0x27] @ joint @
     [CHR 0x27] @ ''. It has no velocity limits specification.''"

definition no_effort_limits_msg :: "string \<Rightarrow> string" where
  "no_effort_limits_msg joint = ''Cannot enforce limits for joint '' @ [CHR 0x27] @ joint @
     [CHR 0x27] @ ''. It has no effort limits specification.''"

text \<open>Modelled from the spec: the default constructor of \<^verbatim>\<open>JointLimits\<close>
  (\<^verbatim>\<open>safety_limits_interface/joint_limits.h\<close> is not part of the sources at hand). In the
  spec a presence flag says that the limit of its category has been given, and a bound is
  ``only meaningful when the corresponding presence flag is set''; a LimitSpec built from
  no limit data has been given none, so no flag is set. Its bounds mean nothing then;
  they are zero here and no property below reads them.\<close>

definition JointLimits_default :: JointLimits where
  "JointLimits_default =
     \<lparr>JointLimits.min_position = 0, max_position = 0, max_velocity = 0, max_effort = 0,
      has_position_limits = False, has_velocity_limits = False, has_effort_limits = False\<rparr>"

text \<open>The default constructors, lines 88, 161 and 235, have an empty body and check
  nothing: every member is what its own default constructor leaves. For \<^verbatim>\<open>limits_\<close>
  that is \<open>JointLimits_default\<close>. What is left in \<^verbatim>\<open>jh_\<close> and \<^verbatim>\<open>soft_limits_\<close> is decided
  in the collaborators' headers too and plays no part below; the two values are
  parameters.\<close>

definition PositionJointSoftLimitsHandle_default ::
  "JointHandle \<Rightarrow> SoftJointLimits \<Rightarrow> PositionJointSoftLimitsHandle" where
  "PositionJointSoftLimitsHandle_default jh0 soft_limits0 =
     \<lparr>jh = jh0, limits = JointLimits_default,
      PositionJointSoftLimitsHandle.soft_limits = soft_limits0\<rparr>"

definition EffortJointSoftLimitsHandle_default ::
  "JointHandle \<Rightarrow> SoftJointLimits \<Rightarrow> EffortJointSoftLimitsHandle" where
  "EffortJointSoftLimitsHandle_default jh0 soft_limits0 =
     \<lparr>jh = jh0, limits = JointLimits_default,
      EffortJointSoftLimitsHandle.soft_limits = soft_limits0\<rparr>"

definition VelocityJointSaturationHandle_default ::
  "JointHandle \<Rightarrow> VelocityJointSaturationHandle" where
  "VelocityJointSaturationHandle_default jh0 = \<lparr>jh = jh0, limits = JointLimits_default\<rparr>"

text \<open>The checking constructors, lines 90 to 101, 163 to 179 and 237 to 245. The members
  are initialised first, then the flags of the argument are tested in the order of the
  source.\<close>

definition PositionJointSoftLimitsHandle_new ::
  "JointHandle \<Rightarrow> JointLimits \<Rightarrow> SoftJointLimits \<Rightarrow> failure + PositionJointSoftLimitsHandle" where
  "PositionJointSoftLimitsHandle_new jh' limits' soft_limits' =
     (let this = \<lparr>jh = jh', limits = limits',
                   PositionJointSoftLimitsHandle.soft_limits = soft_limits'\<rparr> in
      if \<not> has_velocity_limits limits'
      then Inl (SafetyLimitsInterfaceException (no_velocity_limits_msg (getName (jh this))))
      else Inr this)"

definition EffortJointSoftLimitsHandle_new ::
  "JointHandle \<Rightarrow> JointLimits \<Rightarrow> SoftJointLimits \<Rightarrow> failure + EffortJointSoftLimitsHandle" where
  "EffortJointSoftLimitsHandle_new jh' limits' soft_limits' =
     (let this = \<lparr>jh = jh', limits = limits',
                   EffortJointSoftLimitsHandle.soft_limits = soft_limits'\<rparr> in
      if \<not> has_velocity_limits limits'
      then Inl (SafetyLimitsInterfaceException (no_velocity_limits_msg (getName (jh this))))
      else if \<not> has_effort_limits limits'
      then Inl (SafetyLimitsInterfaceException (no_effort_limits_msg (getName (jh this))))
      else Inr this)"

definition VelocityJointSaturationHandle_new ::
  "JointHandle \<Rightarrow> JointLimits \<Rightarrow> failure + VelocityJointSaturationHandle" where
  "VelocityJointSaturationHandle_new jh' limits' =
     (let this = \<lparr>jh = jh', limits = limits'\<rparr> in
      if \<not> has_velocity_limits limits'
      then Inl (SafetyLimitsInterfaceException (no_velocity_limits_msg (getName (jh this))))
      else Inr this)"

text \<open>\<^verbatim>\<open>PositionJointSoftLimitsHandle::enforceLimits\<close>, lines 107 to 149. The locals
  \<^verbatim>\<open>soft_min_vel\<close>, \<^verbatim>\<open>soft_max_vel\<close>, \<^verbatim>\<open>pos_low\<close> and \<^verbatim>\<open>pos_high\<close> are assigned twice in
  the source; the second binding of a name below is that second assignment. The
  \<^verbatim>\<open>assert\<close> of the first line is taken as compiled in.\<close>

definition PositionJointSoftLimitsHandle_enforceLimits ::
  "PositionJointSoftLimitsHandle \<Rightarrow> real \<Rightarrow> failure + PositionJointSoftLimitsHandle" where
  "PositionJointSoftLimitsHandle_enforceLimits this period =
     (if \<not> period > 0 then Inl assertion_failure
      else
        let pos = getPosition (jh this);
            soft_min_vel = - max_velocity (limits this);
            soft_max_vel = max_velocity (limits this);
            soft_min_vel =
              (if has_position_limits (limits this)
               then saturate (- k_position (PositionJointSoftLimitsHandle.soft_limits this)
                                * (pos - SoftJointLimits.min_position (PositionJointSoftLimitsHandle.soft_limits this)))
                             (- max_velocity (limits this))
                             (max_velocity (limits this))
               else soft_min_vel);
            soft_max_vel =
              (if has_position_limits (limits this)
               then saturate (- k_position (PositionJointSoftLimitsHandle.soft_limits this)
                                * (pos - SoftJointLimits.max_position (PositionJointSoftLimitsHandle.soft_limits this)))
                             (- max_velocity (limits this))
                             (max_velocity (limits this))
               else soft_max_vel);
            dt = period;
            pos_low = pos + soft_min_vel * dt;
            pos_high = pos + soft_max_vel * dt;
            pos_low =
              (if has_position_limits (limits this)
               then std_max pos_low (JointLimits.min_position (limits this))
               else pos_low);
            pos_high =
              (if has_position_limits (limits this)
               then std_min pos_high (JointLimits.max_position (limits this))
               else pos_high);
            pos_cmd = saturate (getCommand (jh this)) pos_low pos_high
        in Inr (this\<lparr>jh := setCommand (jh this) pos_cmd\<rparr>))"

text \<open>\<^verbatim>\<open>EffortJointSoftLimitsHandle::enforceLimits\<close>, lines 185 to 223. The parameter is
  unnamed in the source and no statement can fail.\<close>

definition EffortJointSoftLimitsHandle_enforceLimits ::
  "EffortJointSoftLimitsHandle \<Rightarrow> real \<Rightarrow> EffortJointSoftLimitsHandle" where
  "EffortJointSoftLimitsHandle_enforceLimits this period =
     (let pos = getPosition (jh this);
          vel = getVelocity (jh this);
          soft_min_vel = - max_velocity (limits this);
          soft_max_vel = max_velocity (limits this);
          soft_min_vel =
            (if has_position_limits (limits this)
             then saturate (- k_position (soft_limits this)
                              * (pos - SoftJointLimits.min_position (soft_limits this)))
                           (- max_velocity (limits this))
                           (max_velocity (limits this))
             else soft_min_vel);
          soft_max_vel =
            (if has_position_limits (limits this)
             then saturate (- k_position (soft_limits this)
                              * (pos - SoftJointLimits.max_position (soft_limits this)))
                           (- max_velocity (limits this))
                           (max_velocity (limits this))
             else soft_max_vel);
          soft_min_eff = saturate (- k_velocity (soft_limits this) * (vel - soft_min_vel))
                                  (- max_effort (limits this))
                                  (max_effort (limits this));
          soft_max_eff = saturate (- k_velocity (soft_limits this) * (vel - soft_max_vel))
                                  (- max_effort (limits this))
                                  (max_effort (limits this));
          eff_cmd = saturate (getCommand (jh this)) soft_min_eff soft_max_eff
      in this\<lparr>jh := setCommand (jh this) eff_cmd\<rparr>)"

text \<open>\<^verbatim>\<open>VelocityJointSaturationHandle::enforceLimits\<close>, lines 251 to 260.\<close>

definition VelocityJointSaturationHandle_enforceLimits ::
  "VelocityJointSaturationHandle \<Rightarrow> real \<Rightarrow> VelocityJointSaturationHandle" where
  "VelocityJointSaturationHandle_enforceLimits this period =
     (let vel_cmd = saturate (getCommand (jh this))
                             (- max_velocity (limits this))
                             (max_velocity (limits this))
      in this\<lparr>jh := setCommand (jh this) vel_cmd\<rparr>)"

subsection \<open>The registry\<close>

text \<open>Modelled from the spec: \<^verbatim>\<open>hardware_interface::ResourceManager\<close>
  (\<^verbatim>\<open>hardware_interface/internal/resource_manager.h\<close> is not part of the sources at hand).
  The spec's registry maps a joint name to at most one handle and its lookup fails when
  the name is absent. That the base class fails with a \<^verbatim>\<open>std::logic_error\<close> is what the
  \<^verbatim>\<open>catch\<close> clause of line 276 and the comment above it expect. The text of the message is
  built by the base class from the name; it is the parameter \<open>what\<close>.\<close>

record 'h ResourceManager =
  resource_map :: "string \<Rightarrow> 'h option"

definition ResourceManager_getHandle ::
  "(string \<Rightarrow> string) \<Rightarrow> 'h ResourceManager \<Rightarrow> string \<Rightarrow> failure + 'h" where
  "ResourceManager_getHandle what this name =
     (case resource_map this name of
        None \<Rightarrow> Inl (std_logic_error (what name))
      | Some h \<Rightarrow> Inr h)"

text \<open>\<^verbatim>\<open>JointLimitsInterface::getHandle\<close>, lines 269 to 280: a \<^verbatim>\<open>std::logic_error\<close> of the
  base class is thrown again as a \<^verbatim>\<open>SafetyLimitsInterfaceException\<close> with the same
  message; anything else passes through.\<close>

definition JointLimitsInterface_getHandle ::
  "(string \<Rightarrow> string) \<Rightarrow> 'h ResourceManager \<Rightarrow> string \<Rightarrow> failure + 'h" where
  "JointLimitsInterface_getHandle what this name =
     (case ResourceManager_getHandle what this name of
        Inr h \<Rightarrow> Inr h
      | Inl (std_logic_error e_what) \<Rightarrow> Inl (SafetyLimitsInterfaceException e_what)
      | Inl e \<Rightarrow> Inl e)"

subsection \<open>The laws as the specification words them\<close>

text \<open>The specification's \<open>clamp(x, lo, hi)\<close> is its name for saturation,
  ``clamping a value into \<open>[min, max]\<close>''.\<close>

definition clamp :: "real \<Rightarrow> real \<Rightarrow> real \<Rightarrow> real" where
  "clamp x lo hi = min (max x lo) hi"

text \<open>Section 4.1, step 2: the velocity bounds at position \<open>p\<close>.\<close>

definition spec_vMin :: "JointLimits \<Rightarrow> SoftJointLimits \<Rightarrow> real \<Rightarrow> real" where
  "spec_vMin l s p =
     (if has_position_limits l
      then clamp (- k_position s * (p - SoftJointLimits.min_position s))
                 (- max_velocity l) (max_velocity l)
      else - max_velocity l)"

definition spec_vMax :: "JointLimits \<Rightarrow> SoftJointLimits \<Rightarrow> real \<Rightarrow> real" where
  "spec_vMax l s p =
     (if has_position_limits l
      then clamp (- k_position s * (p - SoftJointLimits.max_position s))
                 (- max_velocity l) (max_velocity l)
      else max_velocity l)"

text \<open>Section 4.1, step 3: the position bounds over a tick of length \<open>dt\<close>.\<close>

definition spec_posLow :: "JointLimits \<Rightarrow> SoftJointLimits \<Rightarrow> real \<Rightarrow> real \<Rightarrow> real" where
  "spec_posLow l s p dt = p + spec_vMin l s p * dt"

definition spec_posHigh :: "JointLimits \<Rightarrow> SoftJointLimits \<Rightarrow> real \<Rightarrow> real \<Rightarrow> real" where
  "spec_posHigh l s p dt = p + spec_vMax l s p * dt"

text \<open>Section 4.1, step 4: the position bounds held within the hard band, when there is
  one.\<close>

definition spec_posLow_hard :: "JointLimits \<Rightarrow> SoftJointLimits \<Rightarrow> real \<Rightarrow> real \<Rightarrow> real" where
  "spec_posLow_hard l s p dt =
     (if has_position_limits l
      then max (spec_posLow l s p dt) (JointLimits.min_position l)
      else spec_posLow l s p dt)"

definition spec_posHigh_hard :: "JointLimits \<Rightarrow> SoftJointLimits \<Rightarrow> real \<Rightarrow> real \<Rightarrow> real" where
  "spec_posHigh_hard l s p dt =
     (if has_position_limits l
      then min (spec_posHigh l s p dt) (JointLimits.max_position l)
      else spec_posHigh l s p dt)"

text \<open>Section 4.2, step 3: the effort bounds at position \<open>p\<close> and velocity \<open>v\<close>.\<close>

definition spec_effMin :: "JointLimits \<Rightarrow> SoftJointLimits \<Rightarrow> real \<Rightarrow> real \<Rightarrow> real" where
  "spec_effMin l s p v =
     clamp (- k_velocity s * (v - spec_vMin l s p)) (- max_effort l) (max_effort l)"

definition spec_effMax :: "JointLimits \<Rightarrow> SoftJointLimits \<Rightarrow> real \<Rightarrow> real \<Rightarrow> real" where
  "spec_effMax l s p v =
     clamp (- k_velocity s * (v - spec_vMax l s p)) (- max_effort l) (max_effort l)"

subsection \<open>Concrete configurations\<close>

text \<open>The joint \<^verbatim>\<open>joint1\<close> at position \<open>p\<close> with velocity \<open>v\<close> and pending command
  \<open>c\<close>.\<close>

definition joint_state :: "real \<Rightarrow> real \<Rightarrow> real \<Rightarrow> JointHandle" where
  "joint_state p v c =
     \<lparr>getName = ''joint1'', getPosition = p, getVelocity = v, getEffort = 0, getCommand = c\<rparr>"

text \<open>Hard limits with every flag set: the band \<open>[0, 1]\<close>, velocity and effort at most
  \<open>1\<close>.\<close>

definition hard_limits :: JointLimits where
  "hard_limits =
     \<lparr>JointLimits.min_position = 0, max_position = 1, max_velocity = 1, max_effort = 1,
      has_position_limits = True, has_velocity_limits = True, has_effort_limits = True\<rparr>"

text \<open>The same velocity limit with no position limits.\<close>

definition velocity_limits_only :: JointLimits where
  "velocity_limits_only =
     \<lparr>JointLimits.min_position = 0, max_position = 0, max_velocity = 1, max_effort = 0,
      has_position_limits = False, has_velocity_limits = True, has_effort_limits = False\<rparr>"

text \<open>Limits with no flag set and every bound zero.\<close>

definition unset_limits :: JointLimits where
  "unset_limits =
     \<lparr>JointLimits.min_position = 0, max_position = 0, max_velocity = 0, max_effort = 0,
      has_position_limits = False, has_velocity_limits = False, has_effort_limits = False\<rparr>"

text \<open>The soft band \<open>[lo, hi]\<close> with both gains \<open>1\<close>.\<close>

definition soft_band :: "real \<Rightarrow> real \<Rightarrow> SoftJointLimits" where
  "soft_band lo hi =
     \<lparr>SoftJointLimits.min_position = lo, max_position = hi, k_position = 1, k_velocity = 1\<rparr>"

lemmas example_defs = joint_state_def hard_limits_def velocity_limits_only_def unset_limits_def
  soft_band_def

lemmas law_defs = PositionJointSoftLimitsHandle_enforceLimits_def
  EffortJointSoftLimitsHandle_enforceLimits_def VelocityJointSaturationHandle_enforceLimits_def
  saturate_def std_max_def std_min_def setCommand_def Let_def

lemmas spec_defs = clamp_def spec_vMin_def spec_vMax_def spec_posLow_def spec_posHigh_def
  spec_posLow_hard_def spec_posHigh_hard_def spec_effMin_def spec_effMax_def

section \<open>Properties\<close>

subsection \<open>Saturation\<close>

lemma std_max_eq: "std_max a b = max a b"
  by (simp add: std_max_def max_def)

lemma std_min_eq: "std_min a b = min a b"
  by (simp add: std_min_def min_def)

lemma saturate_eq_clamp: "saturate x lo hi = clamp x lo hi"
  by (simp add: saturate_def clamp_def std_max_eq std_min_eq)



lemma clamp_crossed: "hi < lo \<Longrightarrow> clamp x lo hi = hi"
  by (simp add: clamp_def)

lemma clamp_ordered:
  "lo \<le> hi \<Longrightarrow> clamp x lo hi = (if x < lo then lo else if hi < x then hi else x)"
  by (simp add: clamp_def min_def max_def)

lemma clamp_mono: "x \<le> y \<Longrightarrow> clamp x lo hi \<le> clamp y lo hi"
  by (auto simp: clamp_def min_def max_def)

text \<open>When the upper bound held below \<open>hmax\<close> is not below \<open>hmin\<close>, holding the
  lower bound above \<open>hmin\<close> only gives the same value as holding both bounds within
  \<open>[hmin, hmax]\<close>.\<close>

lemma clamp_hard_two_sided:
  "hmin \<le> min hi hmax \<Longrightarrow>
   clamp c (max lo hmin) (min hi hmax) = clamp c (clamp lo hmin hmax) (clamp hi hmin hmax)"
  by (auto simp: clamp_def min_def max_def)

subsection \<open>The three laws in closed form\<close>

lemma position_enforceLimits_eq:
  "0 < period \<Longrightarrow>
   PositionJointSoftLimitsHandle_enforceLimits this period =
     Inr (this\<lparr>jh := (jh this)\<lparr>getCommand :=
       clamp (getCommand (jh this))
         (spec_posLow_hard (limits this) (PositionJointSoftLimitsHandle.soft_limits this) (getPosition (jh this)) period)
         (spec_posHigh_hard (limits this) (PositionJointSoftLimitsHandle.soft_limits this) (getPosition (jh this)) period)\<rparr>\<rparr>)"
  by (simp add: PositionJointSoftLimitsHandle_enforceLimits_def Let_def setCommand_def
      saturate_eq_clamp std_max_eq std_min_eq spec_posLow_hard_def spec_posHigh_hard_def
      spec_posLow_def spec_posHigh_def spec_vMin_def spec_vMax_def)

lemma position_enforceLimits_assert:
  "\<not> 0 < period \<Longrightarrow> PositionJointSoftLimitsHandle_enforceLimits this period = Inl assertion_failure"
  by (simp add: PositionJointSoftLimitsHandle_enforceLimits_def)

lemma effort_enforceLimits_eq:
  "EffortJointSoftLimitsHandle_enforceLimits this period =
     this\<lparr>jh := (jh this)\<lparr>getCommand :=
       clamp (getCommand (jh this))
         (spec_effMin (limits this) (soft_limits this) (getPosition (jh this)) (getVelocity (jh this)))
         (spec_effMax (limits this) (soft_limits this) (getPosition (jh this)) (getVelocity (jh this)))\<rparr>\<rparr>"
  by (simp add: EffortJointSoftLimitsHandle_enforceLimits_def Let_def setCommand_def
      saturate_eq_clamp spec_effMin_def spec_effMax_def spec_vMin_def spec_vMax_def)

lemma velocity_enforceLimits_eq:
  "VelocityJointSaturationHandle_enforceLimits this period =
     this\<lparr>jh := (jh this)\<lparr>getCommand :=
       clamp (getCommand (jh this)) (- max_velocity (limits this)) (max_velocity (limits this))\<rparr>\<rparr>"
  by (simp add: VelocityJointSaturationHandle_enforceLimits_def Let_def setCommand_def
      saturate_eq_clamp)

subsection \<open>Position mode\<close>

text \<open>Whatever the bounds, the written command is at most the hard upper limit when
  position limits are present; the hard lower limit is kept exactly when the upper
  position bound of the tick has not fallen below it.\<close>

lemma position_cmd_le_max_position:
  assumes "PositionJointSoftLimitsHandle_enforceLimits this period = Inr this'"
    and "has_position_limits (limits this)"
  shows "getCommand (jh this') \<le> JointLimits.max_position (limits this)"
proof -
  from assms(1) have pos: "0 < period"
    by (auto simp: PositionJointSoftLimitsHandle_enforceLimits_def split: if_splits)
  have "clamp c lo (min hi (JointLimits.max_position (limits this)))
          \<le> JointLimits.max_position (limits this)" for c lo hi
    by (simp add: clamp_def min_le_iff_disj)
  with assms pos show ?thesis
    by (auto simp: position_enforceLimits_eq spec_posHigh_hard_def)
qed

lemma position_cmd_ge_min_position:
  assumes "PositionJointSoftLimitsHandle_enforceLimits this period = Inr this'"
    and "has_position_limits (limits this)"
    and "JointLimits.min_position (limits this) \<le>
         spec_posHigh_hard (limits this) (PositionJointSoftLimitsHandle.soft_limits this)
           (getPosition (jh this)) period"
  shows "JointLimits.min_position (limits this) \<le> getCommand (jh this')"
proof -
  from assms(1) have pos: "0 < period"
    by (auto simp: PositionJointSoftLimitsHandle_enforceLimits_def split: if_splits)
  have "m \<le> hi \<Longrightarrow> m \<le> clamp c (max lo m) hi" for m c lo hi :: real
    by (simp add: clamp_def le_max_iff_disj)
  with assms pos show ?thesis
    by (auto simp: position_enforceLimits_eq spec_posLow_hard_def)
qed

text \<open>C1, as amended. For every position-mode handle, joint state, pending command and
  period \<open>\<Delta>t > 0\<close>, the handle computes the velocity bounds \<open>vMin\<close>, \<open>vMax\<close> and the
  projected bounds \<open>posLow = p + vMin \<Delta>t\<close>, \<open>posHigh = p + vMax \<Delta>t\<close> of the claim.
  Without position limits it writes back exactly \<open>clamp(command, posLow, posHigh)\<close>. With
  position limits, on every tick whose upper bound held below the hard maximum,
  \<open>min(posHigh, maxPosition)\<close>, is not below the hard \<open>minPosition\<close>, it writes back
  exactly \<open>clamp(command, max(posLow, minPosition), min(posHigh, maxPosition))\<close>. Nothing
  else of the handle changes. Nothing is said of a tick on which
  \<open>min(posHigh, maxPosition) < minPosition\<close>.\<close>

theorem C1_position_law:
  "0 < period \<Longrightarrow>
   (has_position_limits (limits this) \<longrightarrow>
      JointLimits.min_position (limits this) \<le>
        spec_posHigh_hard (limits this) (PositionJointSoftLimitsHandle.soft_limits this)
          (getPosition (jh this)) period) \<Longrightarrow>
   PositionJointSoftLimitsHandle_enforceLimits this period =
     Inr (this\<lparr>jh := (jh this)\<lparr>getCommand :=
       clamp (getCommand (jh this))
         (spec_posLow_hard (limits this) (PositionJointSoftLimitsHandle.soft_limits this)
            (getPosition (jh this)) period)
         (spec_posHigh_hard (limits this) (PositionJointSoftLimitsHandle.soft_limits this)
            (getPosition (jh this)) period)\<rparr>\<rparr>)"
  by (rule position_enforceLimits_eq)

text \<open>The amended law at the hard band \<open>[0, 1]\<close> with the soft band \<open>[1/4, 3/4]\<close>, the
  joint at \<open>1/2\<close>, a tick of \<open>1/4\<close> and the command \<open>2\<close>: the bounds are
  \<open>[7/16, 9/16]\<close>, the upper one is not below \<open>minPosition = 0\<close>, and the command
  becomes \<open>9/16\<close>.\<close>

theorem C1_position_law_witness:
  "(0::real) < 1/4 \<and>
   has_position_limits hard_limits \<and>
   spec_posHigh_hard hard_limits (soft_band (1/4) (3/4)) (1/2) (1/4) = 9/16 \<and>
   JointLimits.min_position hard_limits \<le> 9/16 \<and>
   PositionJointSoftLimitsHandle_enforceLimits
     \<lparr>jh = joint_state (1/2) 0 2, limits = hard_limits,
      PositionJointSoftLimitsHandle.soft_limits = soft_band (1/4) (3/4)\<rparr> (1/4) =
   Inr \<lparr>jh = joint_state (1/2) 0 (9/16), limits = hard_limits,
        PositionJointSoftLimitsHandle.soft_limits = soft_band (1/4) (3/4)\<rparr>"
  using C1_position_law [of "1/4"
      "\<lparr>jh = joint_state (1/2) 0 2, limits = hard_limits,
        PositionJointSoftLimitsHandle.soft_limits = soft_band (1/4) (3/4)\<rparr>"]
  by (simp add: example_defs spec_defs)

text \<open>C1, as stated, leaves the hard limits out of the final clamp. Hard band \<open>[0, 1]\<close>,
  soft band \<open>[-5, 5]\<close>, joint at \<open>7/8\<close>, tick \<open>1/4\<close>, command \<open>2\<close>: the projected bounds
  are \<open>[5/8, 9/8]\<close>, so the claim's \<open>clamp(command, posLow, posHigh)\<close> is \<open>9/8\<close>, and the
  handle writes \<open>1\<close>. The upper bound held below the hard maximum is \<open>1\<close>, not below
  \<open>minPosition = 0\<close>.\<close>

theorem C1_hard_limits_counterexample:
  "PositionJointSoftLimitsHandle_enforceLimits
     \<lparr>jh = joint_state (7/8) 0 2, limits = hard_limits,
      PositionJointSoftLimitsHandle.soft_limits = soft_band (-5) 5\<rparr> (1/4) =
   Inr \<lparr>jh = joint_state (7/8) 0 1, limits = hard_limits,
        PositionJointSoftLimitsHandle.soft_limits = soft_band (-5) 5\<rparr> \<and>
   spec_posLow hard_limits (soft_band (-5) 5) (7/8) (1/4) = 5/8 \<and>
   spec_posHigh hard_limits (soft_band (-5) 5) (7/8) (1/4) = 9/8 \<and>
   clamp 2 (spec_posLow hard_limits (soft_band (-5) 5) (7/8) (1/4))
           (spec_posHigh hard_limits (soft_band (-5) 5) (7/8) (1/4)) = 9/8 \<and>
   (9/8::real) \<noteq> 1 \<and>
   JointLimits.min_position hard_limits \<le>
     spec_posHigh_hard hard_limits (soft_band (-5) 5) (7/8) (1/4)"
  by (simp add: law_defs example_defs spec_defs)

text \<open>C2. The claim: with position limits present, the command written back lies in the
  hard band \<open>[minPosition, maxPosition]\<close>, also when the soft band lies outside it. The
  handle below is accepted by the checking constructor: hard band \<open>[0, 1]\<close>, soft band
  \<open>[-5, -4]\<close>, joint at \<open>1/8\<close>, pending command \<open>1/2\<close>. On a tick of \<open>1/4\<close> both velocity
  bounds are \<open>-1\<close>, both projected bounds \<open>-1/8\<close>; the hard clamp lifts \<open>pos_low\<close> to \<open>0\<close>
  and leaves \<open>pos_high\<close> at \<open>-1/8\<close>; \<open>saturate\<close> then returns its upper argument, and the
  command \<open>-1/8\<close>, below \<open>minPosition = 0\<close>, is written.\<close>

theorem C2_command_below_hard_band:
  "PositionJointSoftLimitsHandle_new (joint_state (1/8) 0 (1/2)) hard_limits (soft_band (-5) (-4)) =
     Inr \<lparr>jh = joint_state (1/8) 0 (1/2), limits = hard_limits,
          PositionJointSoftLimitsHandle.soft_limits = soft_band (-5) (-4)\<rparr> \<and>
   PositionJointSoftLimitsHandle_enforceLimits
     \<lparr>jh = joint_state (1/8) 0 (1/2), limits = hard_limits,
      PositionJointSoftLimitsHandle.soft_limits = soft_band (-5) (-4)\<rparr> (1/4) =
   Inr \<lparr>jh = joint_state (1/8) 0 (-1/8), limits = hard_limits,
        PositionJointSoftLimitsHandle.soft_limits = soft_band (-5) (-4)\<rparr> \<and>
   has_position_limits hard_limits \<and>
   (-1/8::real) < JointLimits.min_position hard_limits"
  by (simp add: PositionJointSoftLimitsHandle_new_def law_defs example_defs)

subsection \<open>Effort mode\<close>

text \<open>C3. For every effort-mode handle, joint state and pending command, the handle
  computes the velocity bounds as in position mode, the effort bounds
  \<open>effMin = clamp(-kVelocity (v - vMin), -maxEffort, maxEffort)\<close> and
  \<open>effMax = clamp(-kVelocity (v - vMax), -maxEffort, maxEffort)\<close>, and writes back exactly
  \<open>clamp(command, effMin, effMax)\<close>; nothing else of the handle changes.\<close>

theorem C3_effort_law:
  "EffortJointSoftLimitsHandle_enforceLimits this period =
     this\<lparr>jh := (jh this)\<lparr>getCommand :=
       clamp (getCommand (jh this))
         (spec_effMin (limits this) (soft_limits this)
            (getPosition (jh this)) (getVelocity (jh this)))
         (spec_effMax (limits this) (soft_limits this)
            (getPosition (jh this)) (getVelocity (jh this)))\<rparr>\<rparr>"
  by (rule effort_enforceLimits_eq)

text \<open>C8. For every effort-mode handle and joint state, any two periods give the same
  result: the effort law does not read its period. The position law does: the same
  position-mode handle writes \<open>3/4\<close> on a tick of \<open>1/4\<close> and \<open>1\<close> on a tick of \<open>1/2\<close>.\<close>

theorem C8_effort_period_independent:
  "EffortJointSoftLimitsHandle_enforceLimits this period1 =
     EffortJointSoftLimitsHandle_enforceLimits this period2 \<and>
   PositionJointSoftLimitsHandle_enforceLimits
     \<lparr>jh = joint_state (1/2) 0 2, limits = velocity_limits_only,
      PositionJointSoftLimitsHandle.soft_limits = soft_band 0 1\<rparr> (1/4) =
   Inr \<lparr>jh = joint_state (1/2) 0 (3/4), limits = velocity_limits_only,
        PositionJointSoftLimitsHandle.soft_limits = soft_band 0 1\<rparr> \<and>
   PositionJointSoftLimitsHandle_enforceLimits
     \<lparr>jh = joint_state (1/2) 0 2, limits = velocity_limits_only,
      PositionJointSoftLimitsHandle.soft_limits = soft_band 0 1\<rparr> (1/2) =
   Inr \<lparr>jh = joint_state (1/2) 0 1, limits = velocity_limits_only,
        PositionJointSoftLimitsHandle.soft_limits = soft_band 0 1\<rparr>"
  by (simp add: law_defs example_defs)

subsection \<open>Velocity mode\<close>

text \<open>C4. For every velocity-mode handle, whatever its period, position and effort, the
  handle writes back exactly \<open>clamp(c, -maxVelocity, maxVelocity)\<close> for the pending
  command \<open>c\<close> and changes nothing else; with \<open>maxVelocity = 2\<close> and \<open>c = -10\<close> the
  written command is \<open>-2\<close>.\<close>

theorem C4_velocity_saturation:
  "VelocityJointSaturationHandle_enforceLimits this period =
     this\<lparr>jh := (jh this)\<lparr>getCommand :=
       clamp (getCommand (jh this)) (- max_velocity (limits this)) (max_velocity (limits this))\<rparr>\<rparr> \<and>
   getCommand (jh (VelocityJointSaturationHandle_enforceLimits
     (this\<lparr>jh := (jh this)\<lparr>getCommand := - 10\<rparr>,
           limits := (limits this)\<lparr>max_velocity := 2\<rparr>\<rparr>) period)) = - 2"
  by (simp add: velocity_enforceLimits_eq clamp_def)

subsection \<open>Containment in the bounds of the tick\<close>

text \<open>With non-negative gains, a non-negative velocity limit and an ordered soft band,
  the velocity bounds and the effort bounds of a tick are ordered.\<close>

lemma spec_vMin_le_vMax:
  assumes "0 \<le> k_position s" and "SoftJointLimits.min_position s \<le> SoftJointLimits.max_position s"
    and "0 \<le> max_velocity l"
  shows "spec_vMin l s p \<le> spec_vMax l s p"
proof (cases "has_position_limits l")
  case True
  from assms(1,2)
  have "k_position s * SoftJointLimits.min_position s \<le> k_position s * SoftJointLimits.max_position s"
    by (simp add: mult_left_mono)
  then have "- k_position s * (p - SoftJointLimits.min_position s)
      \<le> - k_position s * (p - SoftJointLimits.max_position s)"
    by (simp add: algebra_simps)
  with True show ?thesis
    by (simp add: spec_vMin_def spec_vMax_def clamp_mono)
next
  case False
  with assms(3) show ?thesis
    by (simp add: spec_vMin_def spec_vMax_def)
qed

lemma spec_effMin_le_effMax:
  assumes "0 \<le> k_position s" and "SoftJointLimits.min_position s \<le> SoftJointLimits.max_position s"
    and "0 \<le> max_velocity l" and "0 \<le> k_velocity s"
  shows "spec_effMin l s p v \<le> spec_effMax l s p v"
proof -
  from assms(1-3) have "spec_vMin l s p \<le> spec_vMax l s p"
    by (rule spec_vMin_le_vMax)
  with assms(4) have "k_velocity s * spec_vMin l s p \<le> k_velocity s * spec_vMax l s p"
    by (simp add: mult_left_mono)
  then have "- k_velocity s * (v - spec_vMin l s p) \<le> - k_velocity s * (v - spec_vMax l s p)"
    by (simp add: algebra_simps)
  then show ?thesis
    by (simp add: spec_effMin_def spec_effMax_def clamp_mono)
qed




subsection \<open>The worked example of position mode\<close>

text \<open>C9, as amended. With \<open>maxVelocity = 1\<close>, no position limits, the pending command
  \<open>5\<close> and a period \<open>\<Delta>t > 0\<close>, the position-mode handle writes back \<open>p + 1 \<Delta>t\<close> for
  every current position \<open>p\<close> with \<open>p + \<Delta>t \<le> 5\<close>; for every other \<open>p\<close> it writes back
  \<open>max(5, p - \<Delta>t)\<close>.\<close>

theorem C9_worked_example:
  "0 < dt \<Longrightarrow> max_velocity (limits this) = 1 \<Longrightarrow> \<not> has_position_limits (limits this) \<Longrightarrow>
   getCommand (jh this) = 5 \<Longrightarrow>
   PositionJointSoftLimitsHandle_enforceLimits this dt =
     Inr (this\<lparr>jh := (jh this)\<lparr>getCommand :=
       (if getPosition (jh this) + dt \<le> 5 then getPosition (jh this) + 1 * dt
        else max 5 (getPosition (jh this) - dt))\<rparr>\<rparr>)"
  by (simp add: position_enforceLimits_eq spec_defs min_def max_def)

text \<open>The example at \<open>p = 2\<close> and \<open>\<Delta>t = 1/4\<close>: the command becomes \<open>9/4\<close>.\<close>

theorem C9_worked_example_witness:
  "(0::real) < 1/4 \<and> max_velocity velocity_limits_only = 1 \<and>
   \<not> has_position_limits velocity_limits_only \<and> getCommand (joint_state 2 0 5) = 5 \<and>
   getPosition (joint_state 2 0 5) + 1/4 \<le> 5 \<and>
   PositionJointSoftLimitsHandle_enforceLimits
     \<lparr>jh = joint_state 2 0 5, limits = velocity_limits_only,
      PositionJointSoftLimitsHandle.soft_limits = soft_band 0 1\<rparr> (1/4) =
   Inr \<lparr>jh = joint_state 2 0 (9/4), limits = velocity_limits_only,
        PositionJointSoftLimitsHandle.soft_limits = soft_band 0 1\<rparr>"
  using C9_worked_example [of "1/4"
      "\<lparr>jh = joint_state 2 0 5, limits = velocity_limits_only,
        PositionJointSoftLimitsHandle.soft_limits = soft_band 0 1\<rparr>"]
  by (simp add: example_defs)

text \<open>C9, as stated, fails for a joint within \<open>\<Delta>t\<close> of the command. At \<open>p = 9/2\<close> and
  \<open>\<Delta>t = 1\<close> the bounds are \<open>[7/2, 11/2]\<close>; the command \<open>5\<close> lies inside and is written
  back unchanged, not as \<open>p + 1 \<Delta>t = 11/2\<close>.\<close>

theorem C9_regardless_of_p_counterexample:
  "PositionJointSoftLimitsHandle_enforceLimits
     \<lparr>jh = joint_state (9/2) 0 5, limits = velocity_limits_only,
      PositionJointSoftLimitsHandle.soft_limits = soft_band 0 1\<rparr> 1 =
   Inr \<lparr>jh = joint_state (9/2) 0 5, limits = velocity_limits_only,
        PositionJointSoftLimitsHandle.soft_limits = soft_band 0 1\<rparr> \<and>
   max_velocity velocity_limits_only = 1 \<and> \<not> has_position_limits velocity_limits_only \<and>
   (5::real) \<noteq> 9/2 + 1 * 1"
  by (simp add: law_defs example_defs)

subsection \<open>Construction\<close>

text \<open>Both messages of the checking constructors carry the joint name between quotes.\<close>

lemma messages_name_the_joint:
  "no_velocity_limits_msg joint =
     ''Cannot enforce limits for joint '' @ [CHR 0x27] @ joint @ [CHR 0x27] @
     ''. It has no velocity limits specification.''"
  "no_effort_limits_msg joint =
     ''Cannot enforce limits for joint '' @ [CHR 0x27] @ joint @ [CHR 0x27] @
     ''. It has no effort limits specification.''"
  by (simp_all add: no_velocity_limits_msg_def no_effort_limits_msg_def)

lemma new_succeeds:
  "has_velocity_limits l \<Longrightarrow>
   PositionJointSoftLimitsHandle_new j l s =
     Inr \<lparr>jh = j, limits = l, PositionJointSoftLimitsHandle.soft_limits = s\<rparr>"
  "has_velocity_limits l \<Longrightarrow> has_effort_limits l \<Longrightarrow>
   EffortJointSoftLimitsHandle_new j l s = Inr \<lparr>jh = j, limits = l, soft_limits = s\<rparr>"
  "has_velocity_limits l \<Longrightarrow>
   VelocityJointSaturationHandle_new j l = Inr \<lparr>jh = j, limits = l\<rparr>"
  by (simp_all add: PositionJointSoftLimitsHandle_new_def EffortJointSoftLimitsHandle_new_def
      VelocityJointSaturationHandle_new_def)

text \<open>C6. Constructing an effort-mode handle from limits without effort limits fails
  with the exception of the package, whose message names the joint (the message about
  velocity limits when those are missing too, the one about effort limits otherwise).
  Constructing any of the three variants from limits without velocity limits fails with
  the exception of the package and the message about velocity limits, naming the joint.
  After construction the exception is not raised: position-mode enforcement never ends
  with it, and effort-mode and velocity-mode enforcement have no failing path at all.\<close>

theorem C6_construction_validation:
  "(\<not> has_effort_limits l \<longrightarrow>
      EffortJointSoftLimitsHandle_new j l s =
        Inl (SafetyLimitsInterfaceException
              (if has_velocity_limits l then no_effort_limits_msg (getName j)
               else no_velocity_limits_msg (getName j)))) \<and>
   (\<not> has_velocity_limits l \<longrightarrow>
      PositionJointSoftLimitsHandle_new j l s =
        Inl (SafetyLimitsInterfaceException (no_velocity_limits_msg (getName j))) \<and>
      EffortJointSoftLimitsHandle_new j l s =
        Inl (SafetyLimitsInterfaceException (no_velocity_limits_msg (getName j))) \<and>
      VelocityJointSaturationHandle_new j l =
        Inl (SafetyLimitsInterfaceException (no_velocity_limits_msg (getName j)))) \<and>
   (\<forall>msg. PositionJointSoftLimitsHandle_enforceLimits this period \<noteq>
      Inl (SafetyLimitsInterfaceException msg))"
  by (simp add: PositionJointSoftLimitsHandle_new_def EffortJointSoftLimitsHandle_new_def
      VelocityJointSaturationHandle_new_def PositionJointSoftLimitsHandle_enforceLimits_def Let_def)

text \<open>The three constructors on \<^verbatim>\<open>joint1\<close> with no flag set, and the effort-mode one with
  the velocity flag alone.\<close>

theorem C6_construction_validation_witness:
  "\<not> has_effort_limits unset_limits \<and> \<not> has_velocity_limits unset_limits \<and>
   PositionJointSoftLimitsHandle_new (joint_state 0 0 0) unset_limits (soft_band 0 1) =
     Inl (SafetyLimitsInterfaceException
       ''Cannot enforce limits for joint 'joint1'. It has no velocity limits specification.'') \<and>
   EffortJointSoftLimitsHandle_new (joint_state 0 0 0) unset_limits (soft_band 0 1) =
     Inl (SafetyLimitsInterfaceException
       ''Cannot enforce limits for joint 'joint1'. It has no velocity limits specification.'') \<and>
   VelocityJointSaturationHandle_new (joint_state 0 0 0) unset_limits =
     Inl (SafetyLimitsInterfaceException
       ''Cannot enforce limits for joint 'joint1'. It has no velocity limits specification.'') \<and>
   \<not> has_effort_limits velocity_limits_only \<and>
   EffortJointSoftLimitsHandle_new (joint_state 0 0 0) velocity_limits_only (soft_band 0 1) =
     Inl (SafetyLimitsInterfaceException
       ''Cannot enforce limits for joint 'joint1'. It has no effort limits specification.'')"
  using C6_construction_validation [of unset_limits "joint_state 0 0 0" "soft_band 0 1"]
    C6_construction_validation [of velocity_limits_only "joint_state 0 0 0" "soft_band 0 1"]
  by (simp add: example_defs no_velocity_limits_msg_def no_effort_limits_msg_def)

text \<open>C10, as amended. Every handle obtained from one of the three checking
  constructors (the ones that take a joint handle and limits) holds the joint handle and
  the limits it was given and has the velocity flag set, and an effort-mode handle
  obtained so has the effort flag set as well: the fields \<open>maxVelocity\<close> and \<open>maxEffort\<close>
  that the laws read are flagged as present. A checking constructor given limits that
  lack such a flag fails with the exception of the package and yields no handle. The
  default constructors check nothing.\<close>

theorem C10_flags_of_checked_handles:
  "(PositionJointSoftLimitsHandle_new j l s = Inr ph \<longrightarrow>
      ph = \<lparr>jh = j, limits = l, PositionJointSoftLimitsHandle.soft_limits = s\<rparr> \<and>
      has_velocity_limits (limits ph)) \<and>
   (\<not> has_velocity_limits l \<longrightarrow>
      PositionJointSoftLimitsHandle_new j l s =
        Inl (SafetyLimitsInterfaceException (no_velocity_limits_msg (getName j)))) \<and>
   (EffortJointSoftLimitsHandle_new j l s = Inr eh \<longrightarrow>
      eh = \<lparr>jh = j, limits = l, soft_limits = s\<rparr> \<and>
      has_velocity_limits (limits eh) \<and> has_effort_limits (limits eh)) \<and>
   (\<not> (has_velocity_limits l \<and> has_effort_limits l) \<longrightarrow>
      (\<exists>msg. EffortJointSoftLimitsHandle_new j l s = Inl (SafetyLimitsInterfaceException msg))) \<and>
   (VelocityJointSaturationHandle_new j l = Inr vh \<longrightarrow>
      vh = \<lparr>jh = j, limits = l\<rparr> \<and> has_velocity_limits (limits vh)) \<and>
   (\<not> has_velocity_limits l \<longrightarrow>
      VelocityJointSaturationHandle_new j l =
        Inl (SafetyLimitsInterfaceException (no_velocity_limits_msg (getName j))))"
  by (auto simp: PositionJointSoftLimitsHandle_new_def EffortJointSoftLimitsHandle_new_def
      VelocityJointSaturationHandle_new_def Let_def split: if_splits)

text \<open>The three checking constructors succeed on limits with every flag set and fail on
  limits with no flag set.\<close>

theorem C10_flags_of_checked_handles_witness:
  "has_velocity_limits hard_limits \<and> has_effort_limits hard_limits \<and>
   PositionJointSoftLimitsHandle_new (joint_state 0 0 0) hard_limits (soft_band 0 1) =
     Inr \<lparr>jh = joint_state 0 0 0, limits = hard_limits,
          PositionJointSoftLimitsHandle.soft_limits = soft_band 0 1\<rparr> \<and>
   EffortJointSoftLimitsHandle_new (joint_state 0 0 0) hard_limits (soft_band 0 1) =
     Inr \<lparr>jh = joint_state 0 0 0, limits = hard_limits, soft_limits = soft_band 0 1\<rparr> \<and>
   VelocityJointSaturationHandle_new (joint_state 0 0 0) hard_limits =
     Inr \<lparr>jh = joint_state 0 0 0, limits = hard_limits\<rparr> \<and>
   \<not> has_velocity_limits unset_limits \<and>
   PositionJointSoftLimitsHandle_new (joint_state 0 0 0) unset_limits (soft_band 0 1) =
     Inl (SafetyLimitsInterfaceException (no_velocity_limits_msg ''joint1'')) \<and>
   (\<exists>msg. EffortJointSoftLimitsHandle_new (joint_state 0 0 0) unset_limits (soft_band 0 1) =
     Inl (SafetyLimitsInterfaceException msg)) \<and>
   VelocityJointSaturationHandle_new (joint_state 0 0 0) unset_limits =
     Inl (SafetyLimitsInterfaceException (no_velocity_limits_msg ''joint1''))"
proof -
  have flags: "has_velocity_limits hard_limits" "has_effort_limits hard_limits"
    "\<not> has_velocity_limits unset_limits" "getName (joint_state 0 0 0) = ''joint1''"
    by (simp_all add: example_defs)
  note ok = C10_flags_of_checked_handles [of "joint_state 0 0 0" hard_limits "soft_band 0 1"
      "\<lparr>jh = joint_state 0 0 0, limits = hard_limits,
        PositionJointSoftLimitsHandle.soft_limits = soft_band 0 1\<rparr>"
      "\<lparr>jh = joint_state 0 0 0, limits = hard_limits, soft_limits = soft_band 0 1\<rparr>"
      "\<lparr>jh = joint_state 0 0 0, limits = hard_limits\<rparr>"]
  note ko = C10_flags_of_checked_handles [of "joint_state 0 0 0" unset_limits "soft_band 0 1"]
  from ok ko flags show ?thesis
    by (simp add: new_succeeds)
qed

text \<open>C10, as stated, covers the public default constructors. They never fail, and the
  handle they return holds the limits that the default constructor of \<^verbatim>\<open>JointLimits\<close>
  leaves. These are limits that the checking constructor rejects; each of the three
  variants yields a handle whose velocity flag is false (and, in effort mode, whose
  effort flag is false), although its law reads \<open>maxVelocity\<close> (and \<open>maxEffort\<close>).\<close>

theorem C10_default_constructor_counterexample:
  "limits (PositionJointSoftLimitsHandle_default (joint_state 0 0 0) (soft_band 0 0)) =
     JointLimits_default \<and>
   PositionJointSoftLimitsHandle_new (joint_state 0 0 0) JointLimits_default (soft_band 0 0) =
     Inl (SafetyLimitsInterfaceException (no_velocity_limits_msg ''joint1'')) \<and>
   \<not> has_velocity_limits
      (limits (PositionJointSoftLimitsHandle_default (joint_state 0 0 0) (soft_band 0 0))) \<and>
   \<not> has_velocity_limits
      (limits (EffortJointSoftLimitsHandle_default (joint_state 0 0 0) (soft_band 0 0))) \<and>
   \<not> has_effort_limits
      (limits (EffortJointSoftLimitsHandle_default (joint_state 0 0 0) (soft_band 0 0))) \<and>
   \<not> has_velocity_limits
      (limits (VelocityJointSaturationHandle_default (joint_state 0 0 0)))"
  by (simp add: PositionJointSoftLimitsHandle_default_def EffortJointSoftLimitsHandle_default_def
      VelocityJointSaturationHandle_default_def JointLimits_default_def
      PositionJointSoftLimitsHandle_new_def joint_state_def)

subsection \<open>Lookup in the registry\<close>

lemma getHandle_registered:
  "resource_map this name = Some h \<Longrightarrow> JointLimitsInterface_getHandle what this name = Inr h"
  by (simp add: JointLimitsInterface_getHandle_def ResourceManager_getHandle_def)

text \<open>C7, as amended. For every registry and every joint name not registered in it,
  \<open>getHandle(name)\<close> fails with the exception of the package,
  \<^verbatim>\<open>SafetyLimitsInterfaceException\<close>, carrying the message of the underlying lookup, and
  not with the generic \<^verbatim>\<open>std::logic_error\<close> that the underlying lookup raises. (It is the
  same exception class as the one the constructors raise.)\<close>

theorem C7_lookup_failure:
  "resource_map this name = None \<Longrightarrow>
   JointLimitsInterface_getHandle what this name =
     Inl (SafetyLimitsInterfaceException (what name)) \<and>
   ResourceManager_getHandle what this name = Inl (std_logic_error (what name)) \<and>
   (\<forall>msg. JointLimitsInterface_getHandle what this name \<noteq> Inl (std_logic_error msg))"
  by (simp add: JointLimitsInterface_getHandle_def ResourceManager_getHandle_def)

text \<open>Looking \<^verbatim>\<open>joint1\<close> up in the empty registry of position-mode handles.\<close>

theorem C7_lookup_failure_witness:
  "resource_map \<lparr>resource_map = Map.empty\<rparr> ''joint1'' =
     (None :: PositionJointSoftLimitsHandle option) \<and>
   JointLimitsInterface_getHandle (append ''Could not find resource '')
     \<lparr>resource_map = Map.empty\<rparr> ''joint1'' =
   (Inl (SafetyLimitsInterfaceException ''Could not find resource joint1'')
      :: failure + PositionJointSoftLimitsHandle)"
  using C7_lookup_failure [of "\<lparr>resource_map = Map.empty\<rparr> :: PositionJointSoftLimitsHandle ResourceManager"
      "''joint1''" "append ''Could not find resource ''"]
  by simp

text \<open>C7, as stated, has the lookup failure distinguishable by its kind from a
  configuration failure. Both are the one exception class of the package: the failed
  lookup of \<^verbatim>\<open>joint1\<close> and the failed construction of a handle for \<^verbatim>\<open>joint1\<close> differ in
  their message only.\<close>

theorem C7_same_exception_class_counterexample:
  "JointLimitsInterface_getHandle (append ''Could not find resource '')
     \<lparr>resource_map = Map.empty\<rparr> ''joint1'' =
   (Inl (SafetyLimitsInterfaceException ''Could not find resource joint1'')
      :: failure + PositionJointSoftLimitsHandle) \<and>
   PositionJointSoftLimitsHandle_new (joint_state 0 0 0) unset_limits (soft_band 0 1) =
     Inl (SafetyLimitsInterfaceException
       ''Cannot enforce limits for joint 'joint1'. It has no velocity limits specification.'')"
  by (simp add: JointLimitsInterface_getHandle_def ResourceManager_getHandle_def
      PositionJointSoftLimitsHandle_new_def no_velocity_limits_msg_def example_defs)

end
